theory Spec2Isabelle
  imports Main "HOL-Library.Word"
begin

section \<open>The RealSense source element: data model\<close>

text \<open>
  A shallow embedding of \<^verbatim>\<open>gstrealsensesrc.cpp\<close>. The element instance
  (\<^verbatim>\<open>struct _GstRealsenseSrc\<close>) is a record that every operation takes and
  returns. The camera SDK (librealsense2) and the GStreamer host are outside the
  repository: what they answer is read from an \<^emph>\<open>environment\<close>, and what the
  element asks of them is appended to a trace kept beside the instance fields.
\<close>

type_synonym guint8 = "8 word"
type_synonym uint16_t = "16 word"
type_synonym guint = "32 word"
type_synonym guint64 = "64 word"

text \<open>\<^verbatim>\<open>enum Align { None, Color, Depth }\<close>; \<open>Align_Other\<close> stands for an
  integer outside the enumeration stored by the \<^verbatim>\<open>static_cast\<close> of the setter.\<close>

datatype Align = Align_None | Align_Color | Align_Depth | Align_Other int

definition Align_of_int :: "int \<Rightarrow> Align" where
  "Align_of_int i =
     (if i = 0 then Align_None else if i = 1 then Align_Color
      else if i = 2 then Align_Depth else Align_Other i)"

datatype rs2_stream = RS2_STREAM_COLOR | RS2_STREAM_DEPTH

text \<open>A frame set as the element reads it: the color frame's width, height and raw
  bytes, and the depth frame's raw 16-bit samples. The SDK returns width and height as
  non-negative C++ \<^verbatim>\<open>int\<close>s; every conversion and every \<^verbatim>\<open>int\<close> product the source
  makes of them is written out where it is made, with 32-bit wrap-around.\<close>

record video_frame =
  get_width :: nat
  get_height :: nat
  get_data :: "guint8 list"

record frameset =
  get_color_frame :: video_frame
  get_depth_frame :: "uint16_t list"

record rs2_device =
  camera_info_name :: string
  camera_info_serial :: string
  advanced_mode_enabled :: bool

text \<open>The SDK operations the element calls, with the arguments it passes.\<close>

datatype sdk_call =
    Pipeline_new
  | Config_new
  | Context_new
  | Query_devices
  | Get_info_serial
  | Get_info_name
  | As_advanced_mode
  | Is_enabled
  | Toggle_advanced_mode
  | Load_json string
  | Enable_device string
  | Enable_stream rs2_stream int int int
  | Align_new rs2_stream
  | Pipeline_start
  | Pipeline_stop
  | Wait_for_frames
  | Align_process rs2_stream

text \<open>The element messages of the source, one constructor for each
  \<^verbatim>\<open>GST_ELEMENT_ERROR\<close> and \<^verbatim>\<open>GST_ELEMENT_WARNING\<close> site.\<close>

datatype message =
    Warning_invalid_color_mode int int int
  | Warning_invalid_depth_mode int int int
  | Warning_preset_file string
  | Warning_unknown_alignment
  | Error_invalid_color_mode int int int
  | Error_invalid_depth_mode int int int
  | Error_no_devices
  | Error_not_D435i
  | Error_realsense_start
  | Error_caps_calculation
  | Error_allocate_buffer
  | Error_map_buffer
  | Error_realsense_create

datatype GstVideoFormat = GST_VIDEO_FORMAT_UNKNOWN | GST_VIDEO_FORMAT_RGB

record GstVideoInfo =
  vinfo_format :: GstVideoFormat
  vinfo_width :: nat
  vinfo_height :: nat
  vinfo_size :: nat
  fps_n :: nat
  fps_d :: nat

datatype GstCaps =
    Pad_template_caps
  | Video_caps GstVideoInfo
  | Caps_intersect GstCaps GstCaps

datatype effect =
    Message message
  | Sdk sdk_call
  | Set_blocksize guint
  | Set_caps GstCaps

record rs2_pipeline =
  running :: bool

record GstBuffer =
  buffer_data :: "guint8 list"
  buffer_timestamp :: "guint64 option"
  buffer_dts :: "guint64 option"
  buffer_offset :: "guint64 option"

datatype GstFlowReturn = GST_FLOW_OK | GST_FLOW_FLUSHING | GST_FLOW_ERROR

text \<open>The instance structure. \<open>out_framesize\<close> is a 32-bit \<^verbatim>\<open>guint\<close> and
  \<open>frame_count\<close> a \<^verbatim>\<open>guint64\<close>. \<open>temp_ugly_buf_index\<close> is the function-static
  \<^verbatim>\<open>int\<close> counter of \<^verbatim>\<open>gst_realsense_src_create\<close>, a 32-bit word read as signed;
  \<open>trace\<close> is the record of what the element has posted and called so far.\<close>

record GstRealsenseSrc =
  out_framesize :: guint
  stop_requested :: bool
  caps :: "GstCaps option"
  frame_count :: guint64
  rs_pipeline :: "rs2_pipeline option"
  aligner :: "rs2_stream option"
  align :: Align
  color_width :: int
  color_height :: int
  color_fps :: int
  depth_width :: int
  depth_height :: int
  depth_fps :: int
  preset_file :: "string option"
  temp_ugly_buf_index :: "32 word"
  trace :: "effect list"

text \<open>What the SDK and the host answer during one call of the element.\<close>

record environment =
  sdk_throws :: "sdk_call \<Rightarrow> bool"
  devices :: "rs2_device list"
  file_contents :: "string \<Rightarrow> string option"
  next_frames :: frameset
  align_process :: "rs2_stream \<Rightarrow> frameset \<Rightarrow> frameset"
  clock_time :: guint64
  base_time :: guint64
  buffer_alloc :: "(nat \<Rightarrow> guint8) option"
  buffer_map :: bool

section \<open>Control flow: returns, C++ exceptions, undefined behaviour\<close>

datatype exception = Rs2_error | Runtime_error

datatype undefined = Null_pointer | Out_of_bounds_read | Out_of_bounds_write

datatype 'a outcome = Return 'a | Throw exception | Undefined undefined

datatype 'a rs2_result = Rs2_raises | Rs2_returns 'a

definition andthen ::
  "'a outcome \<times> 's \<Rightarrow> ('a \<Rightarrow> 's \<Rightarrow> 'b outcome \<times> 's) \<Rightarrow> 'b outcome \<times> 's" where
  "andthen r k =
     (case r of
        (Return x, s) \<Rightarrow> k x s
      | (Throw e, s) \<Rightarrow> (Throw e, s)
      | (Undefined u, s) \<Rightarrow> (Undefined u, s))"

text \<open>\<^verbatim>\<open>catch (const rs2::error&)\<close>: \<^verbatim>\<open>rs2::error\<close> derives from
  \<^verbatim>\<open>std::runtime_error\<close>, so the clause does not catch a plain
  \<^verbatim>\<open>std::runtime_error\<close>.\<close>

definition catch_rs2_error ::
  "'a outcome \<times> 's \<Rightarrow> ('s \<Rightarrow> 'a outcome \<times> 's) \<Rightarrow> 'a outcome \<times> 's" where
  "catch_rs2_error r handler =
     (case r of
        (Throw Rs2_error, s) \<Rightarrow> handler s
      | (Throw Runtime_error, s) \<Rightarrow> (Throw Runtime_error, s)
      | (Return x, s) \<Rightarrow> (Return x, s)
      | (Undefined u, s) \<Rightarrow> (Undefined u, s))"

definition emit :: "effect \<Rightarrow> GstRealsenseSrc \<Rightarrow> GstRealsenseSrc" where
  "emit e src = src\<lparr>trace := trace src @ [e]\<rparr>"

text \<open>One SDK call: recorded, and raising \<^verbatim>\<open>rs2::error\<close> when the environment says so.\<close>

definition sdk :: "environment \<Rightarrow> sdk_call \<Rightarrow> GstRealsenseSrc \<Rightarrow> unit outcome \<times> GstRealsenseSrc" where
  "sdk env c src =
     (if sdk_throws env c then (Throw Rs2_error, emit (Sdk c) src)
      else (Return (), emit (Sdk c) src))"

subsection \<open>The SDK's pipeline contract\<close>

text \<open>
  librealsense2 documents \<^verbatim>\<open>rs2::pipeline::stop\<close> and
  \<^verbatim>\<open>rs2::pipeline::wait_for_frames\<close> as taking effect only after \<^verbatim>\<open>start()\<close>,
  an exception being raised otherwise, and \<^verbatim>\<open>start\<close> as raising on a pipeline
  that is already started. A session is live exactly while \<open>running\<close> holds.
\<close>

definition rs2_pipeline_start :: "environment \<Rightarrow> rs2_pipeline \<Rightarrow> rs2_pipeline rs2_result" where
  "rs2_pipeline_start env p =
     (if running p then Rs2_raises
      else if sdk_throws env Pipeline_start then Rs2_raises
      else Rs2_returns (p\<lparr>running := True\<rparr>))"

definition rs2_pipeline_stop :: "environment \<Rightarrow> rs2_pipeline \<Rightarrow> rs2_pipeline rs2_result" where
  "rs2_pipeline_stop env p =
     (if running p then
        (if sdk_throws env Pipeline_stop then Rs2_raises
         else Rs2_returns (p\<lparr>running := False\<rparr>))
      else Rs2_raises)"

definition rs2_pipeline_wait_for_frames :: "environment \<Rightarrow> rs2_pipeline \<Rightarrow> frameset rs2_result" where
  "rs2_pipeline_wait_for_frames env p =
     (if running p then
        (if sdk_throws env Wait_for_frames then Rs2_raises
         else Rs2_returns (next_frames env))
      else Rs2_raises)"

section \<open>Mode validator\<close>

definition valid_color_modes :: "(int \<times> int \<times> int) list" where
  "valid_color_modes =
    [(1920, 1080, 6), (1920, 1080, 15), (1920, 1080, 30),
     (1280, 720, 6), (1280, 720, 15), (1280, 720, 30),
     (960, 540, 6), (960, 540, 15), (960, 540, 30), (960, 540, 60),
     (848, 480, 6), (848, 480, 15), (848, 480, 30), (848, 480, 60),
     (640, 480, 6), (640, 480, 15), (640, 480, 30), (640, 480, 60),
     (640, 360, 6), (640, 360, 15), (640, 360, 30), (640, 360, 60),
     (424, 240, 6), (424, 240, 15), (424, 240, 30), (424, 240, 60),
     (320, 240, 6), (320, 240, 30), (320, 240, 60),
     (320, 180, 6), (320, 180, 30), (320, 180, 60)]"

definition valid_depth_modes :: "(int \<times> int \<times> int) list" where
  "valid_depth_modes =
    [(1280, 720, 6), (1280, 720, 15), (1280, 720, 30),
     (848, 480, 6), (848, 480, 15), (848, 480, 30), (848, 480, 60), (848, 480, 90),
     (640, 480, 6), (640, 480, 15), (640, 480, 30), (640, 480, 60), (640, 480, 90),
     (640, 360, 6), (640, 360, 15), (640, 360, 30), (640, 360, 60), (640, 360, 90),
     (480, 270, 6), (480, 270, 15), (480, 270, 30), (480, 270, 60), (480, 270, 90),
     (424, 240, 6), (424, 240, 15), (424, 240, 30), (424, 240, 60), (424, 240, 90)]"

fun is_valid_mode :: "(int \<times> int \<times> int) list \<Rightarrow> int \<Rightarrow> int \<Rightarrow> int \<Rightarrow> bool" where
  "is_valid_mode [] w h fps = False"
| "is_valid_mode (t # modes) w h fps =
     (if fst t = w \<and> fst (snd t) = h \<and> snd (snd t) = fps then True
      else is_valid_mode modes w h fps)"

section \<open>Reset, initialisation, properties\<close>

text \<open>\<^verbatim>\<open>gst_realsense_src_reset\<close>: stops the pipeline when the handle is non-null; the
  handle itself is left as it is. No exception is caught here.\<close>

definition gst_realsense_src_reset ::
  "environment \<Rightarrow> GstRealsenseSrc \<Rightarrow> unit outcome \<times> GstRealsenseSrc" where
  "gst_realsense_src_reset env src =
     andthen
       (case rs_pipeline src of
          None \<Rightarrow> (Return (), src)
        | Some p \<Rightarrow>
            (case rs2_pipeline_stop env p of
               Rs2_raises \<Rightarrow> (Throw Rs2_error, emit (Sdk Pipeline_stop) src)
             | Rs2_returns p' \<Rightarrow>
                 (Return (), emit (Sdk Pipeline_stop) (src\<lparr>rs_pipeline := Some p'\<rparr>))))
       (\<lambda>_ src. (Return (), src\<lparr>out_framesize := 0, frame_count := 0, caps := None\<rparr>))"

text \<open>The instance memory as GObject hands it to \<^verbatim>\<open>gst_realsense_src_init\<close>:
  zero-filled.\<close>

definition zeroed_instance :: GstRealsenseSrc where
  "zeroed_instance =
     \<lparr>out_framesize = 0, stop_requested = False, caps = None, frame_count = 0,
      rs_pipeline = None, aligner = None, align = Align_None,
      color_width = 0, color_height = 0, color_fps = 0,
      depth_width = 0, depth_height = 0, depth_fps = 0,
      preset_file = None, temp_ugly_buf_index = 0, trace = []\<rparr>"

definition gst_realsense_src_init :: "environment \<Rightarrow> unit outcome \<times> GstRealsenseSrc" where
  "gst_realsense_src_init env =
     gst_realsense_src_reset env
       (zeroed_instance\<lparr>color_width := 1280, color_height := 720, color_fps := 30,
          depth_width := 640, depth_height := 480, depth_fps := 30,
          align := Align_Color, preset_file := None, stop_requested := False,
          caps := None\<rparr>)"

text \<open>A property write: the property id together with a value of the type of its
  \<^verbatim>\<open>GParamSpec\<close>. \<open>PROP_0\<close> stands for an id the switch does not know.\<close>

datatype property =
    PROP_0
  | PROP_ALIGN int
  | PROP_COLOR_WIDTH int
  | PROP_COLOR_HEIGHT int
  | PROP_COLOR_FPS int
  | PROP_DEPTH_WIDTH int
  | PROP_DEPTH_HEIGHT int
  | PROP_DEPTH_FPS int
  | PROP_PRESET_FILE "string option"

text \<open>The ranges installed by \<^verbatim>\<open>gst_realsense_src_class_init\<close>; GObject hands the
  setter only values inside them.\<close>

fun param_spec_range :: "property \<Rightarrow> bool" where
  "param_spec_range PROP_0 = True"
| "param_spec_range (PROP_ALIGN v) = (0 \<le> v \<and> v \<le> 2)"
| "param_spec_range (PROP_COLOR_WIDTH v) = (1 \<le> v \<and> v \<le> 4096)"
| "param_spec_range (PROP_COLOR_HEIGHT v) = (1 \<le> v \<and> v \<le> 2160)"
| "param_spec_range (PROP_COLOR_FPS v) = (1 \<le> v \<and> v \<le> 120)"
| "param_spec_range (PROP_DEPTH_WIDTH v) = (1 \<le> v \<and> v \<le> 2048)"
| "param_spec_range (PROP_DEPTH_HEIGHT v) = (1 \<le> v \<and> v \<le> 1536)"
| "param_spec_range (PROP_DEPTH_FPS v) = (1 \<le> v \<and> v \<le> 120)"
| "param_spec_range (PROP_PRESET_FILE v) = True"

text \<open>The \<^verbatim>\<open>switch\<close> of \<^verbatim>\<open>gst_realsense_src_set_property\<close>.\<close>

fun property_switch :: "GstRealsenseSrc \<Rightarrow> property \<Rightarrow> GstRealsenseSrc" where
  "property_switch src (PROP_ALIGN v) = src\<lparr>align := Align_of_int v\<rparr>"
| "property_switch src (PROP_COLOR_WIDTH v) = src\<lparr>color_width := v\<rparr>"
| "property_switch src (PROP_COLOR_HEIGHT v) = src\<lparr>color_height := v\<rparr>"
| "property_switch src (PROP_COLOR_FPS v) = src\<lparr>color_fps := v\<rparr>"
| "property_switch src (PROP_DEPTH_WIDTH v) = src\<lparr>depth_width := v\<rparr>"
| "property_switch src (PROP_DEPTH_HEIGHT v) = src\<lparr>depth_height := v\<rparr>"
| "property_switch src (PROP_DEPTH_FPS v) = src\<lparr>depth_fps := v\<rparr>"
| "property_switch src (PROP_PRESET_FILE v) = src\<lparr>preset_file := v\<rparr>"
| "property_switch src PROP_0 = src"

text \<open>The two validation blocks that follow the switch.\<close>

definition validate_color_mode :: "GstRealsenseSrc \<Rightarrow> GstRealsenseSrc" where
  "validate_color_mode src =
     (if color_width src > 0 \<and> color_height src > 0 \<and> color_fps src > 0 then
        (if is_valid_mode valid_color_modes (color_width src) (color_height src) (color_fps src)
         then src
         else (emit (Message (Warning_invalid_color_mode
                 (color_width src) (color_height src) (color_fps src))) src)
               \<lparr>color_width := 1280, color_height := 720, color_fps := 30\<rparr>)
      else src)"

definition validate_depth_mode :: "GstRealsenseSrc \<Rightarrow> GstRealsenseSrc" where
  "validate_depth_mode src =
     (if depth_width src > 0 \<and> depth_height src > 0 \<and> depth_fps src > 0 then
        (if is_valid_mode valid_depth_modes (depth_width src) (depth_height src) (depth_fps src)
         then src
         else (emit (Message (Warning_invalid_depth_mode
                 (depth_width src) (depth_height src) (depth_fps src))) src)
               \<lparr>depth_width := 640, depth_height := 480, depth_fps := 30\<rparr>)
      else src)"

definition gst_realsense_src_set_property :: "GstRealsenseSrc \<Rightarrow> property \<Rightarrow> GstRealsenseSrc" where
  "gst_realsense_src_set_property src p =
     validate_depth_mode (validate_color_mode (property_switch src p))"

section \<open>Unlock, stop, caps query\<close>

definition gst_realsense_src_unlock :: "GstRealsenseSrc \<Rightarrow> bool \<times> GstRealsenseSrc" where
  "gst_realsense_src_unlock src = (True, src\<lparr>stop_requested := True\<rparr>)"

definition gst_realsense_src_unlock_stop :: "GstRealsenseSrc \<Rightarrow> bool \<times> GstRealsenseSrc" where
  "gst_realsense_src_unlock_stop src = (True, src\<lparr>stop_requested := False\<rparr>)"

definition gst_realsense_src_stop ::
  "environment \<Rightarrow> GstRealsenseSrc \<Rightarrow> bool outcome \<times> GstRealsenseSrc" where
  "gst_realsense_src_stop env src =
     andthen (gst_realsense_src_reset env src) (\<lambda>_ src. (Return True, src))"

text \<open>\<^verbatim>\<open>gst_caps_copy\<close> of a null pointer fails its argument check and gives a null
  pointer back; \<open>None\<close> is the null pointer.\<close>

definition gst_caps_copy :: "GstCaps option \<Rightarrow> GstCaps option" where
  "gst_caps_copy c = (case c of None \<Rightarrow> None | Some x \<Rightarrow> Some x)"

definition gst_realsense_src_get_caps :: "GstRealsenseSrc \<Rightarrow> GstCaps option \<Rightarrow> GstCaps option" where
  "gst_realsense_src_get_caps src flt =
     (let caps0 = (case rs_pipeline src of
                     None \<Rightarrow> Some Pad_template_caps
                   | Some p \<Rightarrow> gst_caps_copy (caps src))
      in case flt of
           None \<Rightarrow> caps0
         | Some f \<Rightarrow> (case caps0 of None \<Rightarrow> None | Some c \<Rightarrow> Some (Caps_intersect c f)))"

section \<open>Caps negotiation\<close>

text \<open>Modelled from the spec: \<^verbatim>\<open>gst_video_info_set_format\<close> and
  \<^verbatim>\<open>GST_VIDEO_INFO_SIZE\<close> belong to GStreamer and are not under \<^verbatim>\<open>src/\<close>. The spec
  gives the frame size of the packed 8-bit RGB layout as width \<open>\<times>\<close> height \<open>\<times>\<close> 3 bytes;
  the size field is a 64-bit \<^verbatim>\<open>gsize\<close>, width and height arrive as \<^verbatim>\<open>guint\<close>.
  (GStreamer lays the rows of this format out on a 4-byte-aligned stride; for a width
  that is a multiple of 4, as every width of the two mode tables is, that is the same
  number.)\<close>

definition gst_video_info_set_format :: "GstVideoFormat \<Rightarrow> nat \<Rightarrow> nat \<Rightarrow> GstVideoInfo" where
  "gst_video_info_set_format fmt width height =
     \<lparr>vinfo_format = fmt, vinfo_width = width, vinfo_height = height,
      vinfo_size = (width * height * 3) mod 2 ^ 64, fps_n = 0, fps_d = 1\<rparr>"

definition gst_video_info_to_caps :: "GstVideoInfo \<Rightarrow> GstCaps" where
  "gst_video_info_to_caps vinfo = Video_caps vinfo"

text \<open>The first two statements of both \<^verbatim>\<open>try\<close> blocks that pull frames
  (\<^verbatim>\<open>gst_realsense_src_calculate_caps\<close> and \<^verbatim>\<open>gst_realsense_src_create\<close>):
  \<^verbatim>\<open>wait_for_frames\<close>, then \<^verbatim>\<open>aligner->process\<close> when an aligner is set.
  The accessors of a delivered frame set are reads of its value.\<close>

definition pull_frame_set ::
  "environment \<Rightarrow> GstRealsenseSrc \<Rightarrow> frameset outcome \<times> GstRealsenseSrc" where
  "pull_frame_set env src =
     (case rs_pipeline src of
        None \<Rightarrow> (Undefined Null_pointer, src)
      | Some p \<Rightarrow>
          (case rs2_pipeline_wait_for_frames env p of
             Rs2_raises \<Rightarrow> (Throw Rs2_error, emit (Sdk Wait_for_frames) src)
           | Rs2_returns frame_set \<Rightarrow>
               (case aligner src of
                  None \<Rightarrow> (Return frame_set, emit (Sdk Wait_for_frames) src)
                | Some a \<Rightarrow>
                    andthen (sdk env (Align_process a) (emit (Sdk Wait_for_frames) src))
                      (\<lambda>_ src. (Return (align_process env a frame_set), src)))))"

text \<open>Lines 512 to 534 of \<^verbatim>\<open>gst_realsense_src_calculate_caps\<close>, after the frame set is
  pulled. \<^verbatim>\<open>guint32 width = cframe.get_width()\<close> and
  \<^verbatim>\<open>height = cframe.get_height() * 2\<close> are 32-bit values; the \<^verbatim>\<open>gsize\<close> frame size is
  stored in the 32-bit \<open>out_framesize\<close>, which keeps its low 32 bits.\<close>

definition publish_caps ::
  "frameset \<Rightarrow> GstRealsenseSrc \<Rightarrow> bool outcome \<times> GstRealsenseSrc" where
  "publish_caps frame_set src =
     (let cframe = get_color_frame frame_set;
          width = get_width cframe mod 2 ^ 32;
          height = (get_height cframe * 2) mod 2 ^ 32;
          vinfo = (gst_video_info_set_format GST_VIDEO_FORMAT_RGB width height)
                    \<lparr>fps_n := 30, fps_d := 1\<rparr>;
          src = src\<lparr>caps := Some (gst_video_info_to_caps vinfo)\<rparr>;
          src = src\<lparr>out_framesize := of_nat (vinfo_size vinfo)\<rparr>;
          src = emit (Set_blocksize (out_framesize src)) src;
          src = emit (Set_caps (gst_video_info_to_caps vinfo)) src
      in (Return True, src))"

definition gst_realsense_src_calculate_caps ::
  "environment \<Rightarrow> GstRealsenseSrc \<Rightarrow> bool outcome \<times> GstRealsenseSrc" where
  "gst_realsense_src_calculate_caps env src =
     catch_rs2_error
       (andthen (pull_frame_set env src) (\<lambda>frame_set src. publish_caps frame_set src))
       (\<lambda>src. (Return False, emit (Message Error_caps_calculation) src))"

section \<open>Frame multiplexer\<close>

text \<open>The three bytes written for one depth sample.\<close>

definition depth_pixel :: "uint16_t \<Rightarrow> guint8 list" where
  "depth_pixel depth_val =
     (if depth_val < 2560
      then [ucast (depth_val mod 10), ucast (depth_val div 10), ucast (depth_val mod 10)]
      else [0, 0, 0])"

text \<open>The depth loop over the mapped memory \<open>mem\<close>; \<open>bottom_half\<close> is the offset of the
  lower half. A read past the depth samples or a write past the buffer is undefined
  behaviour in the source and an outcome of its own here.\<close>

function encode_depth ::
  "nat \<Rightarrow> nat \<Rightarrow> uint16_t list \<Rightarrow> nat \<Rightarrow> guint8 list \<Rightarrow> guint8 list outcome" where
  "encode_depth i num_pixels depth_data bottom_half mem =
     (if i < num_pixels then
        (if i < length depth_data then
           (if bottom_half + i * 3 + 2 < length mem then
              encode_depth (i + 1) num_pixels depth_data bottom_half
                (mem[bottom_half + i * 3 := depth_pixel (depth_data ! i) ! 0,
                     bottom_half + i * 3 + 1 := depth_pixel (depth_data ! i) ! 1,
                     bottom_half + i * 3 + 2 := depth_pixel (depth_data ! i) ! 2])
            else Undefined Out_of_bounds_write)
         else Undefined Out_of_bounds_read)
      else Return mem)"
  by pat_completeness auto
termination
  by (relation "measure (\<lambda>(i, num_pixels, depth_data, bottom_half, mem). num_pixels - i)") auto

declare encode_depth.simps [simp del]

text \<open>\<^verbatim>\<open>int num_pixels = width * height\<close>, as the number of times the depth loop runs: a
  32-bit \<^verbatim>\<open>int\<close> product, which wraps; when the wrapped value is negative the loop
  body never runs.\<close>

definition num_pixels :: "video_frame \<Rightarrow> nat" where
  "num_pixels cframe =
     (let product = (get_width cframe * get_height cframe) mod 2 ^ 32
      in if product < 2 ^ 31 then product else 0)"

text \<open>Lines 582 to 622 of \<^verbatim>\<open>gst_realsense_src_create\<close>: the copy of the color bytes,
  the depth loop, the buffer metadata and the returned status. \<^verbatim>\<open>GST_CLOCK_DIFF\<close>
  subtracts two 64-bit clock times and the result is stored in the unsigned 64-bit timestamp fields, so the subtraction is that of
  64-bit words; the \<^verbatim>\<open>int\<close> counter is sign-extended to the unsigned 64-bit offset
  and its increment wraps. (In the loop \<^verbatim>\<open>i * 3\<close> is an \<^verbatim>\<open>int\<close> product too: the
  mapped memory is shorter than \<open>2 ^ 32\<close> bytes, so whenever the write is inside it the
  product is below \<open>2 ^ 31\<close>.)\<close>

definition fill_buffer ::
  "environment \<Rightarrow> frameset \<Rightarrow> GstBuffer \<Rightarrow> GstRealsenseSrc \<Rightarrow>
     (GstFlowReturn \<times> GstBuffer option) outcome \<times> GstRealsenseSrc" where
  "fill_buffer env frame_set buf src =
     (let cframe = get_color_frame frame_set;
          color_data = get_data cframe;
          depth_data = get_depth_frame frame_set;
          half = length (buffer_data buf) div 2
      in if length color_data < half then (Undefined Out_of_bounds_read, src)
         else
           (case encode_depth 0 (num_pixels cframe) depth_data half
                   (take half color_data @ drop half (buffer_data buf)) of
              Undefined u \<Rightarrow> (Undefined u, src)
            | Throw e \<Rightarrow> (Throw e, src)
            | Return mem \<Rightarrow>
                (let ts = clock_time env - base_time env;
                     buf = buf\<lparr>buffer_data := mem, buffer_timestamp := Some ts,
                             buffer_dts := Some ts,
                             buffer_offset := Some (scast (temp_ugly_buf_index src))\<rparr>;
                     src = src\<lparr>temp_ugly_buf_index := temp_ugly_buf_index src + 1\<rparr>;
                     src = src\<lparr>frame_count := frame_count src + 1\<rparr>
                 in (Return (if stop_requested src then GST_FLOW_FLUSHING else GST_FLOW_OK,
                             Some buf), src))))"

text \<open>\<^verbatim>\<open>gst_realsense_src_create\<close>. The result pairs the returned status with the
  value of \<^verbatim>\<open>*buf\<close>. An allocation failure throws \<^verbatim>\<open>std::runtime_error\<close> inside the
  \<^verbatim>\<open>try\<close> block.\<close>

definition gst_realsense_src_create ::
  "environment \<Rightarrow> GstRealsenseSrc \<Rightarrow>
     (GstFlowReturn \<times> GstBuffer option) outcome \<times> GstRealsenseSrc" where
  "gst_realsense_src_create env src =
     catch_rs2_error
       (andthen (pull_frame_set env src) (\<lambda>frame_set src.
          case buffer_alloc env of
            None \<Rightarrow> (Throw Runtime_error, emit (Message Error_allocate_buffer) src)
          | Some contents \<Rightarrow>
              (let buf = \<lparr>buffer_data = map contents [0..<unat (out_framesize src)],
                          buffer_timestamp = None, buffer_dts = None, buffer_offset = None\<rparr>
               in if buffer_map env then fill_buffer env frame_set buf src
                  else (Return (GST_FLOW_ERROR, Some buf), emit (Message Error_map_buffer) src))))
       (\<lambda>src. (Return (GST_FLOW_ERROR, None), emit (Message Error_realsense_create) src))"

section \<open>Device session start\<close>

text \<open>Lines 675 to 693: the preset, for a D435I only.\<close>

definition load_preset ::
  "environment \<Rightarrow> rs2_device \<Rightarrow> GstRealsenseSrc \<Rightarrow> unit outcome \<times> GstRealsenseSrc" where
  "load_preset env dev src =
     (case preset_file src of
        None \<Rightarrow> (Return (), src)
      | Some json_file \<Rightarrow>
          (if json_file = [] then (Return (), src)
           else
             andthen (sdk env As_advanced_mode src) (\<lambda>_ src.
             andthen (sdk env Is_enabled src) (\<lambda>_ src.
             andthen (if advanced_mode_enabled dev then (Return (), src)
                      else sdk env Toggle_advanced_mode src) (\<lambda>_ src.
             case file_contents env json_file of
               None \<Rightarrow> (Return (), emit (Message (Warning_preset_file json_file)) src)
             | Some preset \<Rightarrow> sdk env (Load_json preset) src)))))"

text \<open>Lines 706 to 718: the alignment switch.\<close>

definition select_aligner ::
  "environment \<Rightarrow> GstRealsenseSrc \<Rightarrow> unit outcome \<times> GstRealsenseSrc" where
  "select_aligner env src =
     (case align src of
        Align_None \<Rightarrow> (Return (), src)
      | Align_Color \<Rightarrow>
          andthen (sdk env (Align_new RS2_STREAM_COLOR) src)
            (\<lambda>_ src. (Return (), src\<lparr>aligner := Some RS2_STREAM_COLOR\<rparr>))
      | Align_Depth \<Rightarrow>
          andthen (sdk env (Align_new RS2_STREAM_DEPTH) src)
            (\<lambda>_ src. (Return (), src\<lparr>aligner := Some RS2_STREAM_DEPTH\<rparr>))
      | Align_Other i \<Rightarrow> (Return (), emit (Message Warning_unknown_alignment) src))"

text \<open>Line 721: \<^verbatim>\<open>src->rs_pipeline->start(cfg)\<close>.\<close>

definition pipeline_start ::
  "environment \<Rightarrow> GstRealsenseSrc \<Rightarrow> unit outcome \<times> GstRealsenseSrc" where
  "pipeline_start env src =
     (case rs_pipeline src of
        None \<Rightarrow> (Undefined Null_pointer, src)
      | Some p \<Rightarrow>
          (case rs2_pipeline_start env p of
             Rs2_raises \<Rightarrow> (Throw Rs2_error, emit (Sdk Pipeline_start) src)
           | Rs2_returns p' \<Rightarrow>
               (Return (), emit (Sdk Pipeline_start) (src\<lparr>rs_pipeline := Some p'\<rparr>))))"

text \<open>Lines 701 to 728: stream configuration, aligner, pipeline start and the one-shot
  caps calculation, whose result is the result of the block.\<close>

definition configure_and_start ::
  "environment \<Rightarrow> rs2_device \<Rightarrow> GstRealsenseSrc \<Rightarrow> bool outcome \<times> GstRealsenseSrc" where
  "configure_and_start env dev src =
     andthen (sdk env (Enable_device (camera_info_serial dev)) src) (\<lambda>_ src.
     andthen (sdk env (Enable_stream RS2_STREAM_COLOR
                (color_width src) (color_height src) (color_fps src)) src) (\<lambda>_ src.
     andthen (sdk env (Enable_stream RS2_STREAM_DEPTH
                (depth_width src) (depth_height src) (depth_fps src)) src) (\<lambda>_ src.
     andthen (select_aligner env src) (\<lambda>_ src.
     andthen (pipeline_start env src) (\<lambda>_ src.
     gst_realsense_src_calculate_caps env src)))))"

text \<open>The \<^verbatim>\<open>try\<close> block of \<^verbatim>\<open>gst_realsense_src_start\<close>. \<^verbatim>\<open>std::make_unique\<close>
  replaces the handle by a fresh pipeline that is not started; the null test that
  follows it in the source cannot succeed.\<close>

definition start_try ::
  "environment \<Rightarrow> GstRealsenseSrc \<Rightarrow> bool outcome \<times> GstRealsenseSrc" where
  "start_try env src =
     andthen (sdk env Pipeline_new src) (\<lambda>_ src.
     andthen (sdk env Config_new (src\<lparr>rs_pipeline := Some \<lparr>running = False\<rparr>\<rparr>)) (\<lambda>_ src.
     andthen (sdk env Context_new src) (\<lambda>_ src.
     andthen (sdk env Query_devices src) (\<lambda>_ src.
     case devices env of
       [] \<Rightarrow> (Return False, emit (Message Error_no_devices) src)
     | dev # _ \<Rightarrow>
         andthen (sdk env Get_info_serial src) (\<lambda>_ src.
         andthen (sdk env Get_info_name src) (\<lambda>_ src.
         if camera_info_name dev = ''Intel RealSense D435I'' then
           andthen (load_preset env dev src) (\<lambda>_ src. configure_and_start env dev src)
         else (Return False, emit (Message Error_not_D435i) src)))))))"

definition gst_realsense_src_start ::
  "environment \<Rightarrow> GstRealsenseSrc \<Rightarrow> bool outcome \<times> GstRealsenseSrc" where
  "gst_realsense_src_start env src =
     (if is_valid_mode valid_color_modes (color_width src) (color_height src) (color_fps src)
      then
        (if is_valid_mode valid_depth_modes (depth_width src) (depth_height src) (depth_fps src)
         then
           catch_rs2_error (start_try env src)
             (\<lambda>src. (Return False, emit (Message Error_realsense_start) src))
         else (Return False, emit (Message (Error_invalid_depth_mode
                 (depth_width src) (depth_height src) (depth_fps src))) src))
      else (Return False, emit (Message (Error_invalid_color_mode
              (color_width src) (color_height src) (color_fps src))) src))"

section \<open>Derived notions and example inputs\<close>

text \<open>The stored (width, height, fps) triple of each stream.\<close>

definition color_mode :: "GstRealsenseSrc \<Rightarrow> int \<times> int \<times> int" where
  "color_mode src = (color_width src, color_height src, color_fps src)"

definition depth_mode :: "GstRealsenseSrc \<Rightarrow> int \<times> int \<times> int" where
  "depth_mode src = (depth_width src, depth_height src, depth_fps src)"

definition config :: "GstRealsenseSrc \<Rightarrow> (int \<times> int \<times> int) \<times> (int \<times> int \<times> int)" where
  "config src = (color_mode src, depth_mode src)"

text \<open>The element states that the host can reach: initialisation, then property writes
  with values inside the installed ranges and the virtual methods, in any order and
  under any environment.\<close>

inductive reachable :: "GstRealsenseSrc \<Rightarrow> bool" where
  init: "reachable (snd (gst_realsense_src_init env))"
| set_property:
    "reachable src \<Longrightarrow> param_spec_range p \<Longrightarrow> reachable (gst_realsense_src_set_property src p)"
| start: "reachable src \<Longrightarrow> reachable (snd (gst_realsense_src_start env src))"
| stop: "reachable src \<Longrightarrow> reachable (snd (gst_realsense_src_stop env src))"
| create: "reachable src \<Longrightarrow> reachable (snd (gst_realsense_src_create env src))"
| unlock: "reachable src \<Longrightarrow> reachable (snd (gst_realsense_src_unlock src))"
| unlock_stop: "reachable src \<Longrightarrow> reachable (snd (gst_realsense_src_unlock_stop src))"

text \<open>Example inputs: a D435I that delivers a 2 \<open>\<times>\<close> 1 color frame and two depth
  samples, one below and one above the threshold, and a host that allocates and maps.\<close>

definition d435i :: rs2_device where
  "d435i = \<lparr>camera_info_name = ''Intel RealSense D435I'', camera_info_serial = ''0001'',
            advanced_mode_enabled = False\<rparr>"

definition frames_2x1 :: frameset where
  "frames_2x1 =
     \<lparr>get_color_frame = \<lparr>get_width = 2, get_height = 1, get_data = [1, 2, 3, 4, 5, 6]\<rparr>,
      get_depth_frame = [25, 3000]\<rparr>"

definition env_ok :: environment where
  "env_ok =
     \<lparr>sdk_throws = (\<lambda>_. False), devices = [d435i], file_contents = (\<lambda>_. None),
      next_frames = frames_2x1, align_process = (\<lambda>_ fs. fs), clock_time = 100, base_time = 40,
      buffer_alloc = Some (\<lambda>_. 0), buffer_map = True\<rparr>"

text \<open>The frame set that a successful pull hands to the element: what the pipeline
  delivers, passed through the aligner when one is set.\<close>

definition delivered_frame_set :: "environment \<Rightarrow> GstRealsenseSrc \<Rightarrow> frameset" where
  "delivered_frame_set env src =
     (case aligner src of
        None \<Rightarrow> next_frames env
      | Some a \<Rightarrow> align_process env a (next_frames env))"

text \<open>The element after initialisation, after a successful start under \<open>env_ok\<close>, and the
  buffer that \<^verbatim>\<open>create\<close> then fills.\<close>

definition new_src :: GstRealsenseSrc where
  "new_src = snd (gst_realsense_src_init env_ok)"

definition started_src :: GstRealsenseSrc where
  "started_src = snd (gst_realsense_src_start env_ok new_src)"

definition example_buffer :: GstBuffer where
  "example_buffer =
     \<lparr>buffer_data = [1, 2, 3, 4, 5, 6, 5, 2, 5, 0, 0, 0],
      buffer_timestamp = Some 60, buffer_dts = Some 60, buffer_offset = Some 0\<rparr>"

text \<open>Three failing environments: the pipeline raises on \<^verbatim>\<open>wait_for_frames\<close>; the host
  cannot allocate the output buffer; no device is connected.\<close>

definition env_no_frames :: environment where
  "env_no_frames = env_ok\<lparr>sdk_throws := (\<lambda>c. c = Wait_for_frames)\<rparr>"

definition env_alloc_fails :: environment where
  "env_alloc_fails = env_ok\<lparr>buffer_alloc := None\<rparr>"

definition env_no_device :: environment where
  "env_no_device = env_ok\<lparr>devices := []\<rparr>"




text \<open>\<open>untraced e src\<close>: the element has not performed the effect \<open>e\<close> so far.\<close>

definition untraced :: "effect \<Rightarrow> GstRealsenseSrc \<Rightarrow> bool" where
  "untraced e src = (e \<notin> set (trace src))"

text \<open>A device of another model, and the environment in which it is the one connected.\<close>

definition d455 :: rs2_device where
  "d455 = \<lparr>camera_info_name = ''Intel RealSense D455'', camera_info_serial = ''0002'',
           advanced_mode_enabled = False\<rparr>"

definition env_d455 :: environment where
  "env_d455 = env_ok\<lparr>devices := [d455]\<rparr>"

text \<open>The effects of the preset branch of start: the advanced-mode calls, the load of the
  preset and the warning for a preset file that cannot be opened.\<close>

definition preset_effect :: "effect \<Rightarrow> bool" where
  "preset_effect e =
     (case e of
        Sdk As_advanced_mode \<Rightarrow> True
      | Sdk Is_enabled \<Rightarrow> True
      | Sdk Toggle_advanced_mode \<Rightarrow> True
      | Sdk (Load_json p) \<Rightarrow> True
      | Message (Warning_preset_file f) \<Rightarrow> True
      | _ \<Rightarrow> False)"

text \<open>The state in which \<^verbatim>\<open>gst_realsense_src_start\<close> compares the device name.\<close>

definition at_device_check :: "GstRealsenseSrc \<Rightarrow> GstRealsenseSrc" where
  "at_device_check src =
     emit (Sdk Get_info_name) (emit (Sdk Get_info_serial) (emit (Sdk Query_devices)
       (emit (Sdk Context_new) (emit (Sdk Config_new)
          ((emit (Sdk Pipeline_new) src)\<lparr>rs_pipeline := Some \<lparr>running = False\<rparr>\<rparr>)))))"

text \<open>The start reaches the comparison of the device name: both stored modes are valid and
  no SDK call before the comparison raises.\<close>

definition device_check_reached :: "environment \<Rightarrow> GstRealsenseSrc \<Rightarrow> bool" where
  "device_check_reached env src =
     (is_valid_mode valid_color_modes (color_width src) (color_height src) (color_fps src)
      \<and> is_valid_mode valid_depth_modes (depth_width src) (depth_height src) (depth_fps src)
      \<and> \<not> sdk_throws env Pipeline_new \<and> \<not> sdk_throws env Config_new
      \<and> \<not> sdk_throws env Context_new \<and> \<not> sdk_throws env Query_devices
      \<and> \<not> sdk_throws env Get_info_serial \<and> \<not> sdk_throws env Get_info_name)"

section \<open>Basic facts\<close>

lemma is_valid_mode_iff: "is_valid_mode modes w h fps \<longleftrightarrow> (w, h, fps) \<in> set modes"
  by (induction modes) auto

lemma trace_property_switch: "trace (property_switch src p) = trace src"
  by (cases p) simp_all

lemma init_state:
  "gst_realsense_src_init env =
     (Return (), \<lparr>out_framesize = 0, stop_requested = False, caps = None, frame_count = 0,
      rs_pipeline = None, aligner = None, align = Align_Color,
      color_width = 1280, color_height = 720, color_fps = 30,
      depth_width = 640, depth_height = 480, depth_fps = 30,
      preset_file = None, temp_ugly_buf_index = 0, trace = []\<rparr>)"
  by (simp add: gst_realsense_src_init_def gst_realsense_src_reset_def zeroed_instance_def andthen_def)

lemma config_update [simp]:
  "config (src\<lparr>out_framesize := a\<rparr>) = config src"
  "config (src\<lparr>stop_requested := b\<rparr>) = config src"
  "config (src\<lparr>caps := c\<rparr>) = config src"
  "config (src\<lparr>frame_count := d\<rparr>) = config src"
  "config (src\<lparr>rs_pipeline := e\<rparr>) = config src"
  "config (src\<lparr>aligner := f\<rparr>) = config src"
  "config (src\<lparr>align := g\<rparr>) = config src"
  "config (src\<lparr>preset_file := h\<rparr>) = config src"
  "config (src\<lparr>temp_ugly_buf_index := i\<rparr>) = config src"
  "config (src\<lparr>trace := j\<rparr>) = config src"
  by (simp_all add: config_def color_mode_def depth_mode_def)

lemma config_emit [simp]: "config (emit e src) = config src"
  by (simp add: emit_def)

lemma config_sdk [simp]: "config (snd (sdk env c src)) = config src"
  by (simp add: sdk_def)

lemma config_andthen:
  assumes "config (snd r) = c" and "\<And>x s. config s = c \<Longrightarrow> config (snd (k x s)) = c"
  shows "config (snd (andthen r k)) = c"
proof (cases r)
  case (Pair out s)
  with assms show ?thesis by (cases out) (simp_all add: andthen_def)
qed

lemma config_catch:
  assumes "config (snd r) = c" and "\<And>s. config s = c \<Longrightarrow> config (snd (h s)) = c"
  shows "config (snd (catch_rs2_error r h)) = c"
proof (cases r)
  case (Pair out s)
  with assms show ?thesis
    by (cases out) (simp_all add: catch_rs2_error_def split: exception.split)
qed

lemma config_pull_frame_set [simp]: "config (snd (pull_frame_set env src)) = config src"
  unfolding pull_frame_set_def
  by (auto split: option.split rs2_result.split intro!: config_andthen)

lemma config_publish_caps [simp]: "config (snd (publish_caps fs src)) = config src"
  by (simp add: publish_caps_def Let_def)

lemma config_calculate_caps [simp]:
  "config (snd (gst_realsense_src_calculate_caps env src)) = config src"
  unfolding gst_realsense_src_calculate_caps_def
  by (rule config_catch, rule config_andthen) simp_all

lemma config_load_preset [simp]: "config (snd (load_preset env dev src)) = config src"
  unfolding load_preset_def
  by (auto split: option.split intro!: config_andthen)

lemma config_select_aligner [simp]: "config (snd (select_aligner env src)) = config src"
  unfolding select_aligner_def
  by (auto split: Align.split intro!: config_andthen)

lemma config_pipeline_start [simp]: "config (snd (pipeline_start env src)) = config src"
  unfolding pipeline_start_def
  by (auto split: option.split rs2_result.split)

lemma config_configure_and_start [simp]:
  "config (snd (configure_and_start env dev src)) = config src"
  unfolding configure_and_start_def
  by (intro config_andthen) simp_all

lemma config_start_try [simp]: "config (snd (start_try env src)) = config src"
  unfolding start_try_def
  by (intro config_andthen) 
     (auto split: list.split intro!: config_andthen)

lemma config_start [simp]: "config (snd (gst_realsense_src_start env src)) = config src"
  unfolding gst_realsense_src_start_def
  by (auto intro!: config_catch)

lemma config_stop [simp]: "config (snd (gst_realsense_src_stop env src)) = config src"
  unfolding gst_realsense_src_stop_def gst_realsense_src_reset_def
  by (intro config_andthen)
     (auto split: option.split rs2_result.split)

lemma config_fill_buffer [simp]: "config (snd (fill_buffer env fs buf src)) = config src"
  unfolding fill_buffer_def
  by (simp add: Let_def split: outcome.split)

lemma config_create [simp]: "config (snd (gst_realsense_src_create env src)) = config src"
  unfolding gst_realsense_src_create_def
  by (rule config_catch, rule config_andthen) (auto split: option.split simp: Let_def)


lemma color_modes_positive:
  "(w, h, fps) \<in> set valid_color_modes \<Longrightarrow> 0 < w \<and> 0 < h \<and> 0 < fps"
  by (auto simp: valid_color_modes_def)

lemma depth_modes_positive:
  "(w, h, fps) \<in> set valid_depth_modes \<Longrightarrow> 0 < w \<and> 0 < h \<and> 0 < fps"
  by (auto simp: valid_depth_modes_def)

lemma fallback_modes_valid:
  "(1280, 720, 30) \<in> set valid_color_modes" "(640, 480, 30) \<in> set valid_depth_modes"
  by (simp_all add: valid_color_modes_def valid_depth_modes_def)

lemma validate_color_mode_valid:
  assumes "0 < color_width s" "0 < color_height s" "0 < color_fps s"
  shows "color_mode (validate_color_mode s) \<in> set valid_color_modes"
  using assms fallback_modes_valid(1)
  by (simp add: validate_color_mode_def color_mode_def is_valid_mode_iff emit_def)

lemma validate_depth_mode_valid:
  assumes "0 < depth_width s" "0 < depth_height s" "0 < depth_fps s"
  shows "depth_mode (validate_depth_mode s) \<in> set valid_depth_modes"
  using assms fallback_modes_valid(2)
  by (simp add: validate_depth_mode_def depth_mode_def is_valid_mode_iff emit_def)

lemma validate_other_mode:
  "depth_mode (validate_color_mode s) = depth_mode s"
  "color_mode (validate_depth_mode s) = color_mode s"
  by (simp_all add: validate_color_mode_def validate_depth_mode_def color_mode_def
        depth_mode_def emit_def)

lemma property_switch_positive:
  assumes "color_mode src \<in> set valid_color_modes" "depth_mode src \<in> set valid_depth_modes"
    and "param_spec_range p"
  shows "0 < color_width (property_switch src p) \<and> 0 < color_height (property_switch src p)
         \<and> 0 < color_fps (property_switch src p) \<and> 0 < depth_width (property_switch src p)
         \<and> 0 < depth_height (property_switch src p) \<and> 0 < depth_fps (property_switch src p)"
proof -
  have "0 < color_width src \<and> 0 < color_height src \<and> 0 < color_fps src"
    using assms(1) color_modes_positive by (simp add: color_mode_def)
  moreover have "0 < depth_width src \<and> 0 < depth_height src \<and> 0 < depth_fps src"
    using assms(2) depth_modes_positive by (simp add: depth_mode_def)
  ultimately show ?thesis using assms(3) by (cases p) simp_all
qed

lemma set_property_modes_valid:
  assumes "color_mode src \<in> set valid_color_modes" "depth_mode src \<in> set valid_depth_modes"
    and "param_spec_range p"
  shows "color_mode (gst_realsense_src_set_property src p) \<in> set valid_color_modes
         \<and> depth_mode (gst_realsense_src_set_property src p) \<in> set valid_depth_modes"
proof -
  let ?s = "property_switch src p"
  note pos = property_switch_positive [OF assms]
  have c: "color_mode (validate_color_mode ?s) \<in> set valid_color_modes"
    using pos by (intro validate_color_mode_valid) simp_all
  have "depth_mode (validate_color_mode ?s) = depth_mode ?s"
    by (rule validate_other_mode)
  then have "0 < depth_width (validate_color_mode ?s) \<and> 0 < depth_height (validate_color_mode ?s)
             \<and> 0 < depth_fps (validate_color_mode ?s)"
    using pos by (simp add: depth_mode_def)
  then have d: "depth_mode (validate_depth_mode (validate_color_mode ?s)) \<in> set valid_depth_modes"
    by (intro validate_depth_mode_valid) simp_all
  show ?thesis
    using c d by (simp add: gst_realsense_src_set_property_def validate_other_mode)
qed

lemma config_unlock [simp]:
  "config (snd (gst_realsense_src_unlock src)) = config src"
  "config (snd (gst_realsense_src_unlock_stop src)) = config src"
  by (simp_all add: gst_realsense_src_unlock_def gst_realsense_src_unlock_stop_def)

lemma reachable_modes_valid:
  "reachable src \<Longrightarrow>
     color_mode src \<in> set valid_color_modes \<and> depth_mode src \<in> set valid_depth_modes"
proof (induction rule: reachable.induct)
  case (init env)
  show ?case
    by (simp add: init_state color_mode_def depth_mode_def fallback_modes_valid)
next
  case (set_property src p)
  then show ?case by (simp add: set_property_modes_valid)
next
  case (start src env)
  have "config (snd (gst_realsense_src_start env src)) = config src" by simp
  with start.IH show ?case by (simp add: config_def)
next
  case (stop src env)
  have "config (snd (gst_realsense_src_stop env src)) = config src" by simp
  with stop.IH show ?case by (simp add: config_def)
next
  case (create src env)
  have "config (snd (gst_realsense_src_create env src)) = config src" by simp
  with create.IH show ?case by (simp add: config_def)
next
  case (unlock src)
  have "config (snd (gst_realsense_src_unlock src)) = config src" by simp
  with unlock.IH show ?case by (simp add: config_def)
next
  case (unlock_stop src)
  have "config (snd (gst_realsense_src_unlock_stop src)) = config src" by simp
  with unlock_stop.IH show ?case by (simp add: config_def)
qed

lemma andthen_ReturnE:
  assumes "andthen r k = (Return y, s')"
  obtains x s where "r = (Return x, s)" and "k x s = (Return y, s')"
proof (cases r)
  case (Pair out s)
  with assms show ?thesis
    by (cases out) (auto simp: andthen_def intro: that)
qed

lemma catch_rs2_error_ReturnE:
  assumes "catch_rs2_error r h = (Return y, s')"
  obtains "r = (Return y, s')" | s where "r = (Throw Rs2_error, s)" and "h s = (Return y, s')"
proof (cases r)
  case (Pair out s)
  with assms show ?thesis
    by (cases out) (auto simp: catch_rs2_error_def intro: that split: exception.splits)
qed

lemma sdk_Return: "sdk env c s = (Return u, s') \<longleftrightarrow> \<not> sdk_throws env c \<and> s' = emit (Sdk c) s"
  by (auto simp: sdk_def)

lemma pull_frame_set_Return:
  assumes "pull_frame_set env src = (Return fs, s')"
  shows "fs = delivered_frame_set env src \<and> (\<exists>p. rs_pipeline src = Some p \<and> running p)
         \<and> (\<exists>t. s' = src\<lparr>trace := t\<rparr>)"
  using assms
  by (auto simp: pull_frame_set_def delivered_frame_set_def rs2_pipeline_wait_for_frames_def
        andthen_def sdk_def emit_def split: option.splits rs2_result.splits if_splits)







lemma depth_pixel_length [simp]: "length (depth_pixel d) = 3"
  by (simp add: depth_pixel_def)



lemma encode_depth_Return:
  "encode_depth i n d b mem = Return mem' \<Longrightarrow>
     length mem' = length mem
     \<and> (\<forall>j. j < b + i * 3 \<longrightarrow> mem' ! j = mem ! j)
     \<and> (\<forall>k. i \<le> k \<and> k < n \<longrightarrow>
           k < length d \<and> b + k * 3 + 2 < length mem
           \<and> mem' ! (b + k * 3) = depth_pixel (d ! k) ! 0
           \<and> mem' ! (b + k * 3 + 1) = depth_pixel (d ! k) ! 1
           \<and> mem' ! (b + k * 3 + 2) = depth_pixel (d ! k) ! 2)"
proof (induction i n d b mem rule: encode_depth.induct)
  case (1 i n d b mem)
  show ?case
  proof (cases "i < n")
    case False
    with "1.prems" show ?thesis by (auto simp: encode_depth.simps [of i])
  next
    case True
    with "1.prems" have rd: "i < length d" and wr: "b + i * 3 + 2 < length mem"
      by (auto simp: encode_depth.simps [of i] split: if_splits)
    let ?mem1 = "mem[b + i * 3 := depth_pixel (d ! i) ! 0,
                     b + i * 3 + 1 := depth_pixel (d ! i) ! 1,
                     b + i * 3 + 2 := depth_pixel (d ! i) ! 2]"
    from "1.prems" True rd wr have "encode_depth (i + 1) n d b ?mem1 = Return mem'"
      by (simp add: encode_depth.simps [of i])
    from "1.IH" [OF True rd wr this]
    have len: "length mem' = length mem"
      and before: "\<And>j. j < b + (i + 1) * 3 \<Longrightarrow> mem' ! j = ?mem1 ! j"
      and later: "\<And>k. i + 1 \<le> k \<Longrightarrow> k < n \<Longrightarrow>
           k < length d \<and> b + k * 3 + 2 < length mem
           \<and> mem' ! (b + k * 3) = depth_pixel (d ! k) ! 0
           \<and> mem' ! (b + k * 3 + 1) = depth_pixel (d ! k) ! 1
           \<and> mem' ! (b + k * 3 + 2) = depth_pixel (d ! k) ! 2"
      by simp_all
    have unchanged: "\<And>j. j < b + i * 3 \<Longrightarrow> mem' ! j = mem ! j"
    proof -
      fix j assume j: "j < b + i * 3"
      then have "mem' ! j = ?mem1 ! j" by (intro before) simp
      also have "\<dots> = mem ! j" using j by simp
      finally show "mem' ! j = mem ! j" .
    qed
    have here: "mem' ! (b + i * 3) = depth_pixel (d ! i) ! 0
           \<and> mem' ! (b + i * 3 + 1) = depth_pixel (d ! i) ! 1
           \<and> mem' ! (b + i * 3 + 2) = depth_pixel (d ! i) ! 2"
      using wr before [of "b + i * 3"] before [of "b + i * 3 + 1"] before [of "b + i * 3 + 2"]
      by simp
    have pixels: "\<And>k. i \<le> k \<Longrightarrow> k < n \<Longrightarrow>
           k < length d \<and> b + k * 3 + 2 < length mem
           \<and> mem' ! (b + k * 3) = depth_pixel (d ! k) ! 0
           \<and> mem' ! (b + k * 3 + 1) = depth_pixel (d ! k) ! 1
           \<and> mem' ! (b + k * 3 + 2) = depth_pixel (d ! k) ! 2"
    proof -
      fix k assume k: "i \<le> k" "k < n"
      show "k < length d \<and> b + k * 3 + 2 < length mem
           \<and> mem' ! (b + k * 3) = depth_pixel (d ! k) ! 0
           \<and> mem' ! (b + k * 3 + 1) = depth_pixel (d ! k) ! 1
           \<and> mem' ! (b + k * 3 + 2) = depth_pixel (d ! k) ! 2"
      proof (cases "k = i")
        case True
        with here rd wr show ?thesis by simp
      next
        case False
        with k have "i + 1 \<le> k" by simp
        from later [OF this k(2)] show ?thesis .
      qed
    qed
    from len unchanged pixels show ?thesis by blast
  qed
qed




lemma create_delivers:
  assumes "gst_realsense_src_create env src = (Return (flow, buf), src')"
    and "flow \<noteq> GST_FLOW_ERROR"
  shows "\<exists>contents mem b.
           buffer_alloc env = Some contents
         \<and> unat (out_framesize src) div 2
             \<le> length (get_data (get_color_frame (delivered_frame_set env src)))
         \<and> encode_depth 0
              (num_pixels (get_color_frame (delivered_frame_set env src)))
              (get_depth_frame (delivered_frame_set env src))
              (unat (out_framesize src) div 2)
              (take (unat (out_framesize src) div 2)
                    (get_data (get_color_frame (delivered_frame_set env src)))
               @ drop (unat (out_framesize src) div 2)
                   (map contents [0..<unat (out_framesize src)]))
             = Return mem
         \<and> buf = Some b \<and> buffer_data b = mem
         \<and> buffer_timestamp b = Some (clock_time env - base_time env)
         \<and> buffer_dts b = Some (clock_time env - base_time env)
         \<and> buffer_offset b = Some (scast (temp_ugly_buf_index src))
         \<and> flow = (if stop_requested src then GST_FLOW_FLUSHING else GST_FLOW_OK)
         \<and> stop_requested src' = stop_requested src"
proof -
  let ?k = "\<lambda>frame_set src.
          case buffer_alloc env of
            None \<Rightarrow> (Throw Runtime_error, emit (Message Error_allocate_buffer) src)
          | Some contents \<Rightarrow>
              (let buf = \<lparr>buffer_data = map contents [0..<unat (out_framesize src)],
                          buffer_timestamp = None, buffer_dts = None, buffer_offset = None\<rparr>
               in if buffer_map env then fill_buffer env frame_set buf src
                  else (Return (GST_FLOW_ERROR, Some buf), emit (Message Error_map_buffer) src))"
  from assms have "andthen (pull_frame_set env src) ?k = (Return (flow, buf), src')"
    unfolding gst_realsense_src_create_def
    by (elim catch_rs2_error_ReturnE) auto
  then obtain fs s1 where pull: "pull_frame_set env src = (Return fs, s1)"
    and body: "?k fs s1 = (Return (flow, buf), src')"
    by (elim andthen_ReturnE)
  from pull_frame_set_Return [OF pull] obtain t where
    fs: "fs = delivered_frame_set env src" and s1: "s1 = src\<lparr>trace := t\<rparr>" by auto
  from body assms(2) show ?thesis
    unfolding fs s1
    by (auto simp: fill_buffer_def Let_def split: option.splits if_splits outcome.splits)
qed



lemmas example_defs = env_ok_def d435i_def frames_2x1_def

lemmas flow_defs = andthen_def catch_rs2_error_def sdk_def emit_def

lemmas start_defs = gst_realsense_src_start_def start_try_def configure_and_start_def
  load_preset_def select_aligner_def pipeline_start_def gst_realsense_src_calculate_caps_def
  publish_caps_def
  pull_frame_set_def rs2_pipeline_start_def rs2_pipeline_wait_for_frames_def
  gst_video_info_set_format_def gst_video_info_to_caps_def
  valid_color_modes_def valid_depth_modes_def

lemmas create_defs = gst_realsense_src_create_def fill_buffer_def num_pixels_def
  pull_frame_set_def rs2_pipeline_wait_for_frames_def

lemma new_src_eq:
  "new_src = \<lparr>out_framesize = 0, stop_requested = False, caps = None, frame_count = 0,
      rs_pipeline = None, aligner = None, align = Align_Color,
      color_width = 1280, color_height = 720, color_fps = 30,
      depth_width = 640, depth_height = 480, depth_fps = 30,
      preset_file = None, temp_ugly_buf_index = 0, trace = []\<rparr>"
  by (simp add: new_src_def init_state)

lemma start_env_ok:
  "gst_realsense_src_start env_ok new_src =
    (Return True,
     \<lparr>out_framesize = 12, stop_requested = False,
      caps = Some (Video_caps \<lparr>vinfo_format = GST_VIDEO_FORMAT_RGB, vinfo_width = 2,
               vinfo_height = 2, vinfo_size = 12, fps_n = 30, fps_d = 1\<rparr>),
      frame_count = 0, rs_pipeline = Some \<lparr>running = True\<rparr>,
      aligner = Some RS2_STREAM_COLOR, align = Align_Color,
      color_width = 1280, color_height = 720, color_fps = 30,
      depth_width = 640, depth_height = 480, depth_fps = 30,
      preset_file = None, temp_ugly_buf_index = 0,
      trace =
        [Sdk Pipeline_new, Sdk Config_new, Sdk Context_new, Sdk Query_devices,
         Sdk Get_info_serial, Sdk Get_info_name, Sdk (Enable_device ''0001''),
         Sdk (Enable_stream RS2_STREAM_COLOR 1280 720 30),
         Sdk (Enable_stream RS2_STREAM_DEPTH 640 480 30),
         Sdk (Align_new RS2_STREAM_COLOR), Sdk Pipeline_start,
         Sdk Wait_for_frames, Sdk (Align_process RS2_STREAM_COLOR),
         Set_blocksize 12,
         Set_caps (Video_caps \<lparr>vinfo_format = GST_VIDEO_FORMAT_RGB, vinfo_width = 2,
               vinfo_height = 2, vinfo_size = 12, fps_n = 30, fps_d = 1\<rparr>)]\<rparr>)"
  by (simp add: new_src_eq start_defs flow_defs example_defs Let_def)

lemma started_src_eq:
  "started_src =
     \<lparr>out_framesize = 12, stop_requested = False,
      caps = Some (Video_caps \<lparr>vinfo_format = GST_VIDEO_FORMAT_RGB, vinfo_width = 2,
               vinfo_height = 2, vinfo_size = 12, fps_n = 30, fps_d = 1\<rparr>),
      frame_count = 0, rs_pipeline = Some \<lparr>running = True\<rparr>,
      aligner = Some RS2_STREAM_COLOR, align = Align_Color,
      color_width = 1280, color_height = 720, color_fps = 30,
      depth_width = 640, depth_height = 480, depth_fps = 30,
      preset_file = None, temp_ugly_buf_index = 0,
      trace =
        [Sdk Pipeline_new, Sdk Config_new, Sdk Context_new, Sdk Query_devices,
         Sdk Get_info_serial, Sdk Get_info_name, Sdk (Enable_device ''0001''),
         Sdk (Enable_stream RS2_STREAM_COLOR 1280 720 30),
         Sdk (Enable_stream RS2_STREAM_DEPTH 640 480 30),
         Sdk (Align_new RS2_STREAM_COLOR), Sdk Pipeline_start,
         Sdk Wait_for_frames, Sdk (Align_process RS2_STREAM_COLOR),
         Set_blocksize 12,
         Set_caps (Video_caps \<lparr>vinfo_format = GST_VIDEO_FORMAT_RGB, vinfo_width = 2,
               vinfo_height = 2, vinfo_size = 12, fps_n = 30, fps_d = 1\<rparr>)]\<rparr>"
  by (simp add: started_src_def start_env_ok)





lemma fresh_memory_12:
  "map (\<lambda>_. 0 :: guint8) [0..<12] = [0, 0, 0, 0, 0, 0, 0, 0, 0, 0, 0, 0]"
  by (simp add: map_replicate_const numeral_eq_Suc)

lemma create_env_ok:
  assumes "rs_pipeline s = Some \<lparr>running = True\<rparr>" "aligner s = Some RS2_STREAM_COLOR"
    and "out_framesize s = 12"
  shows "gst_realsense_src_create env_ok s =
     (Return (if stop_requested s then GST_FLOW_FLUSHING else GST_FLOW_OK,
              Some (example_buffer\<lparr>buffer_offset := Some (scast (temp_ugly_buf_index s))\<rparr>)),
      (emit (Sdk (Align_process RS2_STREAM_COLOR)) (emit (Sdk Wait_for_frames) s))
        \<lparr>temp_ugly_buf_index := temp_ugly_buf_index s + 1, frame_count := frame_count s + 1\<rparr>)"
  using assms
  by (simp add: create_defs flow_defs example_defs Let_def
        encode_depth.simps depth_pixel_def example_buffer_def fresh_memory_12)

lemma untraced_update [simp]:
  "untraced x (src\<lparr>out_framesize := a\<rparr>) = untraced x src"
  "untraced x (src\<lparr>caps := c\<rparr>) = untraced x src"
  "untraced x (src\<lparr>rs_pipeline := e\<rparr>) = untraced x src"
  "untraced x (src\<lparr>aligner := f\<rparr>) = untraced x src"
  by (simp_all add: untraced_def)

lemma untraced_emit [simp]: "untraced x (emit e src) \<longleftrightarrow> untraced x src \<and> x \<noteq> e"
  by (auto simp: untraced_def emit_def)

lemma untraced_sdk [simp]: "untraced x (snd (sdk env c src)) \<longleftrightarrow> untraced x src \<and> x \<noteq> Sdk c"
  by (simp add: sdk_def)

lemma untraced_andthen:
  assumes "untraced e (snd r)" and "\<And>x s. untraced e s \<Longrightarrow> untraced e (snd (k x s))"
  shows "untraced e (snd (andthen r k))"
proof (cases r)
  case (Pair out s)
  with assms show ?thesis by (cases out) (simp_all add: andthen_def)
qed

lemma untraced_catch:
  assumes "untraced e (snd r)" and "\<And>s. untraced e s \<Longrightarrow> untraced e (snd (h s))"
  shows "untraced e (snd (catch_rs2_error r h))"
proof (cases r)
  case (Pair out s)
  with assms show ?thesis
    by (cases out) (simp_all add: catch_rs2_error_def split: exception.split)
qed

lemma untraced_pull_frame_set:
  assumes "untraced e src" "preset_effect e \<or> e = Message Error_not_D435i"
  shows "untraced e (snd (pull_frame_set env src))"
  using assms unfolding pull_frame_set_def
  by (auto split: option.split rs2_result.split intro!: untraced_andthen simp: preset_effect_def)

lemma untraced_publish_caps:
  assumes "untraced e src" "preset_effect e \<or> e = Message Error_not_D435i"
  shows "untraced e (snd (publish_caps frame_set src))"
  using assms unfolding publish_caps_def
  by (auto simp: Let_def preset_effect_def)

lemma untraced_calculate_caps:
  assumes "untraced e src" "preset_effect e \<or> e = Message Error_not_D435i"
  shows "untraced e (snd (gst_realsense_src_calculate_caps env src))"
  unfolding gst_realsense_src_calculate_caps_def
proof (rule untraced_catch, rule untraced_andthen)
  show "untraced e (snd (pull_frame_set env src))"
    using assms by (rule untraced_pull_frame_set)
next
  fix x s assume "untraced e s"
  then show "untraced e (snd (publish_caps x s))"
    using assms(2) by (rule untraced_publish_caps)
next
  fix s assume "untraced e s"
  with assms(2) show "untraced e (snd (Return False, emit (Message Error_caps_calculation) s))"
    by (auto simp: preset_effect_def)
qed

lemma untraced_select_aligner:
  assumes "untraced e src" "preset_effect e \<or> e = Message Error_not_D435i"
  shows "untraced e (snd (select_aligner env src))"
  using assms unfolding select_aligner_def
  by (auto split: Align.split intro!: untraced_andthen simp: preset_effect_def)

lemma untraced_pipeline_start:
  assumes "untraced e src" "preset_effect e \<or> e = Message Error_not_D435i"
  shows "untraced e (snd (pipeline_start env src))"
  using assms unfolding pipeline_start_def
  by (auto split: option.split rs2_result.split simp: preset_effect_def)

lemma untraced_configure_and_start:
  assumes "untraced e src" "preset_effect e \<or> e = Message Error_not_D435i"
  shows "untraced e (snd (configure_and_start env dev src))"
  unfolding configure_and_start_def
  using assms
  by (intro untraced_andthen untraced_calculate_caps untraced_pipeline_start
        untraced_select_aligner)
     (auto simp: preset_effect_def)


lemma preset_file_emit [simp]: "preset_file (emit e src) = preset_file src"
  by (simp add: emit_def)

lemma rs_pipeline_emit [simp]: "rs_pipeline (emit e src) = rs_pipeline src"
  by (simp add: emit_def)

lemma load_preset_absent:
  assumes "preset_file src = None \<or> preset_file src = Some []"
  shows "load_preset env dev src = (Return (), src)"
  using assms by (auto simp: load_preset_def)

lemma untraced_load_preset:
  assumes "untraced (Message Error_not_D435i) src"
  shows "untraced (Message Error_not_D435i) (snd (load_preset env dev src))"
  using assms unfolding load_preset_def
  by (auto split: option.split intro!: untraced_andthen)

lemma start_try_device_check:
  assumes "\<not> sdk_throws env Pipeline_new" "\<not> sdk_throws env Config_new"
    "\<not> sdk_throws env Context_new" "\<not> sdk_throws env Query_devices"
    "\<not> sdk_throws env Get_info_serial" "\<not> sdk_throws env Get_info_name"
    and "devices env = dev # rest"
  shows "start_try env src =
     (if camera_info_name dev = ''Intel RealSense D435I'' then
        andthen (load_preset env dev (at_device_check src))
          (\<lambda>_ src. configure_and_start env dev src)
      else (Return False, emit (Message Error_not_D435i) (at_device_check src)))"
  using assms by (simp add: start_try_def andthen_def sdk_def at_device_check_def)

lemma untraced_at_device_check:
  assumes "untraced e src" "preset_effect e \<or> e = Message Error_not_D435i"
  shows "untraced e (at_device_check src)"
  using assms by (auto simp: at_device_check_def preset_effect_def)


lemma untraced_start_try:
  assumes "untraced (Message Error_not_D435i) src"
    and "\<And>dev rest. devices env = dev # rest \<Longrightarrow> camera_info_name dev = ''Intel RealSense D435I''"
  shows "untraced (Message Error_not_D435i) (snd (start_try env src))"
  using assms unfolding start_try_def
  by (auto split: list.split
        intro!: untraced_andthen untraced_load_preset untraced_configure_and_start)

lemma untraced_start:
  assumes "untraced (Message Error_not_D435i) src"
    and "\<And>dev rest. devices env = dev # rest \<Longrightarrow> camera_info_name dev = ''Intel RealSense D435I''"
  shows "untraced (Message Error_not_D435i) (snd (gst_realsense_src_start env src))"
  using assms unfolding gst_realsense_src_start_def
  by (auto intro!: untraced_catch untraced_start_try)

lemma start_at_device_check:
  assumes "device_check_reached env src" and "devices env = dev # rest"
  shows "gst_realsense_src_start env src =
     catch_rs2_error
       (if camera_info_name dev = ''Intel RealSense D435I'' then
          andthen (load_preset env dev (at_device_check src))
            (\<lambda>_ src. configure_and_start env dev src)
        else (Return False, emit (Message Error_not_D435i) (at_device_check src)))
       (\<lambda>src. (Return False, emit (Message Error_realsense_start) src))"
proof -
  from assms(1) have "start_try env src =
     (if camera_info_name dev = ''Intel RealSense D435I'' then
        andthen (load_preset env dev (at_device_check src))
          (\<lambda>_ src. configure_and_start env dev src)
      else (Return False, emit (Message Error_not_D435i) (at_device_check src)))"
    by (intro start_try_device_check [OF _ _ _ _ _ _ assms(2)])
       (simp_all add: device_check_reached_def)
  with assms(1) show ?thesis
    by (simp add: gst_realsense_src_start_def device_check_reached_def)
qed

lemma start_rejects_other_device:
  assumes "device_check_reached env src" and "devices env = dev # rest"
    and "camera_info_name dev \<noteq> ''Intel RealSense D435I''"
  shows "gst_realsense_src_start env src =
           (Return False, emit (Message Error_not_D435i) (at_device_check src))"
  using assms(3) by (simp add: start_at_device_check [OF assms(1,2)] catch_rs2_error_def)

lemma preset_file_at_device_check [simp]:
  "preset_file (at_device_check src) = preset_file src"
  by (simp add: at_device_check_def)

lemma rs_pipeline_at_device_check [simp]:
  "rs_pipeline (at_device_check src) = Some \<lparr>running = False\<rparr>"
  by (simp add: at_device_check_def)

lemma start_without_preset:
  assumes "device_check_reached env src" and "devices env = dev # rest"
    and "camera_info_name dev = ''Intel RealSense D435I''"
    and "preset_file src = None \<or> preset_file src = Some []"
  shows "gst_realsense_src_start env src =
     catch_rs2_error (configure_and_start env dev (at_device_check src))
       (\<lambda>src. (Return False, emit (Message Error_realsense_start) src))"
proof -
  have "load_preset env dev (at_device_check src) = (Return (), at_device_check src)"
    using assms(4) by (intro load_preset_absent) simp
  then show ?thesis
    using assms(3) by (simp add: start_at_device_check [OF assms(1,2)] andthen_def)
qed

lemma untraced_start_without_preset:
  assumes "device_check_reached env src" and "devices env = dev # rest"
    and "camera_info_name dev = ''Intel RealSense D435I''"
    and "preset_file src = None \<or> preset_file src = Some []"
    and "preset_effect e" and "untraced e src"
  shows "untraced e (snd (gst_realsense_src_start env src))"
  unfolding start_without_preset [OF assms(1-4)]
proof (rule untraced_catch)
  show "untraced e (snd (configure_and_start env dev (at_device_check src)))"
    using assms(5,6) by (intro untraced_configure_and_start untraced_at_device_check) simp_all
next
  fix s assume "untraced e s"
  with assms(5) show "untraced e (snd (Return False, emit (Message Error_realsense_start) s))"
    by (auto simp: preset_effect_def)
qed

lemma configure_and_start_succeeds:
  assumes "\<And>c. \<not> sdk_throws env c" and "rs_pipeline s = Some \<lparr>running = False\<rparr>"
  shows "fst (configure_and_start env dev s) = Return True"
  using assms
  by (simp add: configure_and_start_def select_aligner_def pipeline_start_def
        gst_realsense_src_calculate_caps_def publish_caps_def pull_frame_set_def rs2_pipeline_start_def
        rs2_pipeline_wait_for_frames_def andthen_def catch_rs2_error_def sdk_def emit_def Let_def
        split: Align.split option.split)

lemma start_succeeds_without_preset:
  assumes "device_check_reached env src" and "devices env = dev # rest"
    and "camera_info_name dev = ''Intel RealSense D435I''"
    and "preset_file src = None \<or> preset_file src = Some []"
    and "\<And>c. \<not> sdk_throws env c"
  shows "fst (gst_realsense_src_start env src) = Return True"
proof -
  have "fst (configure_and_start env dev (at_device_check src)) = Return True"
    using assms(5) by (intro configure_and_start_succeeds) simp_all
  then show ?thesis
    unfolding start_without_preset [OF assms(1-4)]
    by (cases "configure_and_start env dev (at_device_check src)")
       (simp add: catch_rs2_error_def)
qed


section \<open>Claims\<close>







text \<open>C3, at a failing input. Every SDK operation succeeds up to and including
  \<^verbatim>\<open>rs_pipeline->start(cfg)\<close>, and the \<^verbatim>\<open>wait_for_frames\<close> of the caps calculation
  raises. \<^verbatim>\<open>gst_realsense_src_start\<close> returns FALSE, yet the pipeline it started is
  still running, and a later pull on it delivers a frame set.\<close>

theorem C3_failed_negotiation_leaves_session_running:
  "fst (gst_realsense_src_start env_no_frames new_src) = Return False
   \<and> rs_pipeline (snd (gst_realsense_src_start env_no_frames new_src)) = Some \<lparr>running = True\<rparr>
   \<and> fst (pull_frame_set env_ok (snd (gst_realsense_src_start env_no_frames new_src)))
       = Return frames_2x1"
  by (simp add: new_src_eq start_defs flow_defs example_defs env_no_frames_def Let_def)

text \<open>C4, as stated, fails: with no preset configured and a connected device of another
  model, start is rejected with the unsupported-device error, while the same start with
  a D435I succeeds.\<close>

theorem C4_counterexample:
  "preset_file new_src = None
   \<and> fst (gst_realsense_src_start env_d455 new_src) = Return False
   \<and> Message Error_not_D435i \<in> set (trace (snd (gst_realsense_src_start env_d455 new_src)))
   \<and> fst (gst_realsense_src_start env_ok new_src) = Return True"
  by (simp add: new_src_eq start_defs flow_defs example_defs env_d455_def d455_def Let_def)

text \<open>C4, as amended. (1) Whenever start reaches the device check and the first
  enumerated device is not named ``Intel RealSense D435I'', it returns FALSE with the
  unsupported-device error, whatever the preset path. (2) That error is posted only when
  such a device is the first enumerated one. (3) When the device is a D435I and the
  preset path is absent or empty, start performs no advanced-mode call, loads no preset
  and posts no preset warning, and it returns TRUE if no SDK operation raises.\<close>

theorem C4_device_model_gate:
  "(device_check_reached env src \<and> devices env = dev # rest
      \<and> camera_info_name dev \<noteq> ''Intel RealSense D435I''
     \<longrightarrow> gst_realsense_src_start env src =
           (Return False, emit (Message Error_not_D435i) (at_device_check src)))
   \<and> (untraced (Message Error_not_D435i) src
      \<and> \<not> untraced (Message Error_not_D435i) (snd (gst_realsense_src_start env src))
     \<longrightarrow> (\<exists>d ds. devices env = d # ds \<and> camera_info_name d \<noteq> ''Intel RealSense D435I''))
   \<and> (device_check_reached env src \<and> devices env = dev # rest
      \<and> camera_info_name dev = ''Intel RealSense D435I''
      \<and> (preset_file src = None \<or> preset_file src = Some [])
     \<longrightarrow> (\<forall>e. preset_effect e \<and> untraced e src
              \<longrightarrow> untraced e (snd (gst_realsense_src_start env src)))
         \<and> ((\<forall>c. \<not> sdk_throws env c) \<longrightarrow> fst (gst_realsense_src_start env src) = Return True))"
proof (intro conjI impI allI)
  assume "device_check_reached env src \<and> devices env = dev # rest
      \<and> camera_info_name dev \<noteq> ''Intel RealSense D435I''"
  then show "gst_realsense_src_start env src =
           (Return False, emit (Message Error_not_D435i) (at_device_check src))"
    by (intro start_rejects_other_device [of env src dev rest]) blast+
next
  assume a: "untraced (Message Error_not_D435i) src
      \<and> \<not> untraced (Message Error_not_D435i) (snd (gst_realsense_src_start env src))"
  show "\<exists>d ds. devices env = d # ds \<and> camera_info_name d \<noteq> ''Intel RealSense D435I''"
  proof (rule ccontr)
    assume "\<not> (\<exists>d ds. devices env = d # ds \<and> camera_info_name d \<noteq> ''Intel RealSense D435I'')"
    then have "\<And>d ds. devices env = d # ds \<Longrightarrow> camera_info_name d = ''Intel RealSense D435I''"
      by blast
    with a have "untraced (Message Error_not_D435i) (snd (gst_realsense_src_start env src))"
      by (intro untraced_start) blast+
    with a show False by simp
  qed
next
  fix e
  assume "device_check_reached env src \<and> devices env = dev # rest
      \<and> camera_info_name dev = ''Intel RealSense D435I''
      \<and> (preset_file src = None \<or> preset_file src = Some [])"
    and "preset_effect e \<and> untraced e src"
  then show "untraced e (snd (gst_realsense_src_start env src))"
    by (intro untraced_start_without_preset [of env src dev rest]) blast+
next
  assume "device_check_reached env src \<and> devices env = dev # rest
      \<and> camera_info_name dev = ''Intel RealSense D435I''
      \<and> (preset_file src = None \<or> preset_file src = Some [])"
    and "\<forall>c. \<not> sdk_throws env c"
  then show "fst (gst_realsense_src_start env src) = Return True"
    by (intro start_succeeds_without_preset [of env src dev rest]) blast+
qed

theorem C4_witness:
  "device_check_reached env_d455 new_src \<and> devices env_d455 = [d455]
   \<and> preset_file new_src = None
   \<and> gst_realsense_src_start env_d455 new_src =
        (Return False, emit (Message Error_not_D435i) (at_device_check new_src))
   \<and> \<not> untraced (Message Error_not_D435i) (snd (gst_realsense_src_start env_d455 new_src))
   \<and> (\<exists>d ds. devices env_d455 = d # ds \<and> camera_info_name d \<noteq> ''Intel RealSense D435I'')
   \<and> device_check_reached env_ok new_src \<and> devices env_ok = [d435i]
   \<and> untraced (Sdk Toggle_advanced_mode) (snd (gst_realsense_src_start env_ok new_src))
   \<and> fst (gst_realsense_src_start env_ok new_src) = Return True"
proof -
  have reach: "device_check_reached env_d455 new_src" "device_check_reached env_ok new_src"
    by (simp_all add: device_check_reached_def new_src_eq env_d455_def env_ok_def
          valid_color_modes_def valid_depth_modes_def)
  have devs: "devices env_d455 = [d455]" "devices env_ok = [d435i]"
    "camera_info_name d455 \<noteq> ''Intel RealSense D435I''"
    "camera_info_name d435i = ''Intel RealSense D435I''"
    by (simp_all add: env_d455_def env_ok_def d455_def d435i_def)
  have quiet: "untraced (Message Error_not_D435i) new_src"
    "preset_effect (Sdk Toggle_advanced_mode)" "untraced (Sdk Toggle_advanced_mode) new_src"
    "preset_file new_src = None" "\<forall>c. \<not> sdk_throws env_ok c"
    by (simp_all add: untraced_def new_src_eq preset_effect_def env_ok_def)
  note gate1 = C4_device_model_gate [of env_d455 new_src d455 "[]"]
  note gate2 = C4_device_model_gate [of env_ok new_src d435i "[]"]
  from gate1 reach devs have rejected: "gst_realsense_src_start env_d455 new_src =
        (Return False, emit (Message Error_not_D435i) (at_device_check new_src))"
    by simp
  then have posted:
    "\<not> untraced (Message Error_not_D435i) (snd (gst_realsense_src_start env_d455 new_src))"
    by simp
  with gate1 quiet have other:
    "\<exists>d ds. devices env_d455 = d # ds \<and> camera_info_name d \<noteq> ''Intel RealSense D435I''"
    by blast
  from gate2 reach devs quiet have
    "untraced (Sdk Toggle_advanced_mode) (snd (gst_realsense_src_start env_ok new_src))"
    and "fst (gst_realsense_src_start env_ok new_src) = Return True"
    by blast+
  with reach devs quiet rejected posted other show ?thesis by simp
qed

text \<open>C5, at a failing input. When \<^verbatim>\<open>gst_buffer_new_and_alloc\<close> gives a null pointer,
  \<^verbatim>\<open>gst_realsense_src_create\<close> throws \<^verbatim>\<open>std::runtime_error\<close>, which its
  \<^verbatim>\<open>catch (const rs2::error&)\<close> does not catch: the call does not return
  \<open>GST_FLOW_ERROR\<close>, the exception leaves the function. The sibling failure, a buffer
  that cannot be mapped, returns \<open>GST_FLOW_ERROR\<close>.\<close>

theorem C5_allocation_failure_escapes:
  "fst (gst_realsense_src_create env_alloc_fails started_src) = Throw Runtime_error
   \<and> fst (gst_realsense_src_create (env_ok\<lparr>buffer_map := False\<rparr>) started_src)
       = Return (GST_FLOW_ERROR,
           Some \<lparr>buffer_data = [0, 0, 0, 0, 0, 0, 0, 0, 0, 0, 0, 0],
                 buffer_timestamp = None, buffer_dts = None, buffer_offset = None\<rparr>)"
  by (simp add: started_src_eq create_defs flow_defs example_defs env_alloc_fails_def Let_def
        fresh_memory_12)

text \<open>C6, at a failing input. Stop on an element that never created a pipeline changes
  nothing and returns TRUE, and the first stop of a running session stops it. The handle
  is not cleared, so a second stop calls \<^verbatim>\<open>rs_pipeline->stop()\<close> on the stopped
  pipeline; the SDK raises, and \<^verbatim>\<open>gst_realsense_src_stop\<close> has no handler. The same
  happens to the first stop after a start that failed with no device connected: the
  handle is non-null and the pipeline was never started.\<close>

theorem C6_second_stop_throws:
  "gst_realsense_src_stop env_ok new_src = (Return True, new_src)
   \<and> fst (gst_realsense_src_stop env_ok started_src) = Return True
   \<and> rs_pipeline (snd (gst_realsense_src_stop env_ok started_src)) = Some \<lparr>running = False\<rparr>
   \<and> fst (gst_realsense_src_stop env_ok (snd (gst_realsense_src_stop env_ok started_src)))
       = Throw Rs2_error
   \<and> fst (gst_realsense_src_start env_no_device new_src) = Return False
   \<and> rs_pipeline (snd (gst_realsense_src_start env_no_device new_src))
       = Some \<lparr>running = False\<rparr>
   \<and> fst (gst_realsense_src_stop env_ok (snd (gst_realsense_src_start env_no_device new_src)))
       = Throw Rs2_error"
  by (simp add: new_src_eq started_src_eq gst_realsense_src_stop_def gst_realsense_src_reset_def
        rs2_pipeline_stop_def flow_defs example_defs start_defs env_no_device_def)

text \<open>C7. A \<^verbatim>\<open>create\<close> that completes without error right after \<^verbatim>\<open>unlock\<close> returns
  \<open>GST_FLOW_FLUSHING\<close> together with a buffer of the full frame size (the 32-bit
  \<open>out_framesize\<close>) that carries its timestamp, the clock time minus the base time as
  an unsigned 64-bit value; a \<^verbatim>\<open>create\<close> that completes without error after the following
  \<^verbatim>\<open>unlock_stop\<close> returns \<open>GST_FLOW_OK\<close>.\<close>

theorem C7_unlock_flushing_then_ok:
  assumes first: "gst_realsense_src_create env1 (snd (gst_realsense_src_unlock src)) = (Return (flow1, buf1), src1)"
    and first_ok: "flow1 \<noteq> GST_FLOW_ERROR"
    and second: "gst_realsense_src_create env2 (snd (gst_realsense_src_unlock_stop src1)) = (Return (flow2, buf2), src2)"
    and second_ok: "flow2 \<noteq> GST_FLOW_ERROR"
  shows "flow1 = GST_FLOW_FLUSHING
       \<and> (\<exists>b. buf1 = Some b \<and> length (buffer_data b) = unat (out_framesize src)
               \<and> buffer_timestamp b = Some (clock_time env1 - base_time env1))
       \<and> flow2 = GST_FLOW_OK"
proof -
  let ?s = "snd (gst_realsense_src_unlock src)"
  have s: "stop_requested ?s" "out_framesize ?s = out_framesize src"
    by (simp_all add: gst_realsense_src_unlock_def)
  from create_delivers [OF first first_ok] s obtain contents mem b where
    f1: "flow1 = GST_FLOW_FLUSHING" and b: "buf1 = Some b" "buffer_data b = mem"
      "buffer_timestamp b = Some (clock_time env1 - base_time env1)"
    and half: "unat (out_framesize src) div 2 \<le> length (get_data (get_color_frame (delivered_frame_set env1 ?s)))"
    and enc: "encode_depth 0
              (num_pixels (get_color_frame (delivered_frame_set env1 ?s)))
              (get_depth_frame (delivered_frame_set env1 ?s))
              (unat (out_framesize src) div 2)
              (take (unat (out_framesize src) div 2)
                    (get_data (get_color_frame (delivered_frame_set env1 ?s)))
               @ drop (unat (out_framesize src) div 2)
                   (map contents [0..<unat (out_framesize src)]))
             = Return mem"
    by auto
  from encode_depth_Return [OF enc] half have "length mem = unat (out_framesize src)"
    by simp
  moreover have "\<not> stop_requested (snd (gst_realsense_src_unlock_stop src1))"
    by (simp add: gst_realsense_src_unlock_stop_def)
  with create_delivers [OF second second_ok] have "flow2 = GST_FLOW_OK" by auto
  ultimately show ?thesis using f1 b by simp
qed

theorem C7_witness:
  "fst (gst_realsense_src_create env_ok (snd (gst_realsense_src_unlock started_src)))
     = Return (GST_FLOW_FLUSHING, Some example_buffer)
   \<and> fst (gst_realsense_src_create env_ok (snd (gst_realsense_src_unlock_stop
        (snd (gst_realsense_src_create env_ok (snd (gst_realsense_src_unlock started_src)))))))
     = Return (GST_FLOW_OK, Some (example_buffer\<lparr>buffer_offset := Some 1\<rparr>))"
proof -
  let ?s0 = "snd (gst_realsense_src_unlock started_src)"
  have run0: "rs_pipeline ?s0 = Some \<lparr>running = True\<rparr>"
    "aligner ?s0 = Some RS2_STREAM_COLOR" "out_framesize ?s0 = 12"
    by (simp_all add: started_src_eq gst_realsense_src_unlock_def)
  let ?s1 = "snd (gst_realsense_src_create env_ok ?s0)"
  have r1: "fst (gst_realsense_src_create env_ok ?s0)
      = Return (GST_FLOW_FLUSHING, Some example_buffer)"
    by (simp add: create_env_ok [OF run0])
       (simp add: started_src_eq gst_realsense_src_unlock_def example_buffer_def)
  then have first: "gst_realsense_src_create env_ok ?s0 =
      (Return (GST_FLOW_FLUSHING, Some example_buffer), ?s1)"
    by (simp add: prod_eq_iff)
  have s1: "temp_ugly_buf_index ?s1 = 1" "rs_pipeline ?s1 = Some \<lparr>running = True\<rparr>"
    "aligner ?s1 = Some RS2_STREAM_COLOR" "out_framesize ?s1 = 12"
    by (simp_all add: create_env_ok [OF run0] emit_def run0)
       (simp add: started_src_eq gst_realsense_src_unlock_def)
  let ?s2 = "snd (gst_realsense_src_unlock_stop ?s1)"
  have run2: "rs_pipeline ?s2 = Some \<lparr>running = True\<rparr>"
    "aligner ?s2 = Some RS2_STREAM_COLOR" "out_framesize ?s2 = 12"
    and s2: "temp_ugly_buf_index ?s2 = 1" "\<not> stop_requested ?s2"
    using s1 by (simp_all add: gst_realsense_src_unlock_stop_def)
  have r2: "fst (gst_realsense_src_create env_ok ?s2)
      = Return (GST_FLOW_OK, Some (example_buffer\<lparr>buffer_offset := Some 1\<rparr>))"
    by (simp add: create_env_ok [OF run2] s2)
  then have second: "gst_realsense_src_create env_ok ?s2 =
      (Return (GST_FLOW_OK, Some (example_buffer\<lparr>buffer_offset := Some 1\<rparr>)),
       snd (gst_realsense_src_create env_ok ?s2))"
    by (simp add: prod_eq_iff)
  have "GST_FLOW_FLUSHING = GST_FLOW_FLUSHING
       \<and> (\<exists>b. Some example_buffer = Some b \<and> length (buffer_data b) = unat (out_framesize started_src)
               \<and> buffer_timestamp b = Some (clock_time env_ok - base_time env_ok))
       \<and> GST_FLOW_OK = GST_FLOW_OK"
    by (rule C7_unlock_flushing_then_ok [OF first _ second]) simp_all
  with r1 r2 show ?thesis by simp
qed

text \<open>C8. A property write after whose \<^verbatim>\<open>switch\<close> a stream's triple is all positive and
  absent from that stream's mode table posts the warning for that triple and leaves the
  stream at the fixed fallback: 1280 \<open>\<times>\<close> 720 \<open>\<times>\<close> 30 for color, 640 \<open>\<times>\<close> 480 \<open>\<times>\<close> 30 for
  depth. The result depends on the triple alone, not on the instance or the property
  written, so applying the same invalid triple again gives the same fallback.\<close>

theorem C8_invalid_mode_resets_to_fallback:
  "(0 < w \<and> 0 < h \<and> 0 < fps \<and> (w, h, fps) \<notin> set valid_color_modes
      \<and> color_mode (property_switch src p) = (w, h, fps)
     \<longrightarrow> color_mode (gst_realsense_src_set_property src p) = (1280, 720, 30)
         \<and> Message (Warning_invalid_color_mode w h fps)
             \<in> set (drop (length (trace src)) (trace (gst_realsense_src_set_property src p))))
   \<and> (0 < w \<and> 0 < h \<and> 0 < fps \<and> (w, h, fps) \<notin> set valid_depth_modes
      \<and> depth_mode (property_switch src p) = (w, h, fps)
     \<longrightarrow> depth_mode (gst_realsense_src_set_property src p) = (640, 480, 30)
         \<and> Message (Warning_invalid_depth_mode w h fps)
             \<in> set (drop (length (trace src)) (trace (gst_realsense_src_set_property src p))))"
  by (auto simp: gst_realsense_src_set_property_def validate_color_mode_def validate_depth_mode_def
        color_mode_def depth_mode_def emit_def is_valid_mode_iff trace_property_switch)

theorem C8_witness:
  "color_mode (gst_realsense_src_set_property (snd (gst_realsense_src_init env_ok)) (PROP_COLOR_WIDTH 640)) = (1280, 720, 30)
   \<and> Message (Warning_invalid_color_mode 640 720 30)
       \<in> set (trace (gst_realsense_src_set_property (snd (gst_realsense_src_init env_ok)) (PROP_COLOR_WIDTH 640)))
   \<and> depth_mode (gst_realsense_src_set_property (snd (gst_realsense_src_init env_ok)) (PROP_DEPTH_FPS 7)) = (640, 480, 30)
   \<and> Message (Warning_invalid_depth_mode 640 480 7)
       \<in> set (trace (gst_realsense_src_set_property (snd (gst_realsense_src_init env_ok)) (PROP_DEPTH_FPS 7)))"
  using C8_invalid_mode_resets_to_fallback [of 640 720 30 "snd (gst_realsense_src_init env_ok)" "PROP_COLOR_WIDTH 640"]
        C8_invalid_mode_resets_to_fallback [of 640 480 7 "snd (gst_realsense_src_init env_ok)" "PROP_DEPTH_FPS 7"]
  by (simp add: init_state color_mode_def depth_mode_def valid_color_modes_def valid_depth_modes_def)

text \<open>C9. In every reachable state the stored color triple is a member of the color
  mode table and the stored depth triple a member of the depth mode table; so both
  checks that open \<^verbatim>\<open>gst_realsense_src_start\<close> succeed, and start is its
  \<^verbatim>\<open>try\<close> block.\<close>

theorem C9_property_interface_keeps_modes_valid:
  assumes "reachable src"
  shows "color_mode src \<in> set valid_color_modes
       \<and> depth_mode src \<in> set valid_depth_modes
       \<and> is_valid_mode valid_color_modes (color_width src) (color_height src) (color_fps src)
       \<and> is_valid_mode valid_depth_modes (depth_width src) (depth_height src) (depth_fps src)
       \<and> gst_realsense_src_start env src =
           catch_rs2_error (start_try env src)
             (\<lambda>src. (Return False, emit (Message Error_realsense_start) src))"
proof -
  from reachable_modes_valid [OF assms]
  have "is_valid_mode valid_color_modes (color_width src) (color_height src) (color_fps src)"
    and "is_valid_mode valid_depth_modes (depth_width src) (depth_height src) (depth_fps src)"
    by (simp_all add: is_valid_mode_iff color_mode_def depth_mode_def)
  then show ?thesis
    by (simp add: gst_realsense_src_start_def is_valid_mode_iff color_mode_def depth_mode_def)
qed

theorem C9_witness:
  "color_mode (gst_realsense_src_set_property
       (gst_realsense_src_set_property (snd (gst_realsense_src_init env_ok)) (PROP_COLOR_FPS 15))
       (PROP_DEPTH_WIDTH 999)) = (1280, 720, 15)
   \<and> depth_mode (gst_realsense_src_set_property
       (gst_realsense_src_set_property (snd (gst_realsense_src_init env_ok)) (PROP_COLOR_FPS 15))
       (PROP_DEPTH_WIDTH 999)) = (640, 480, 30)
   \<and> (1280, 720, 15) \<in> set valid_color_modes \<and> (640, 480, 30) \<in> set valid_depth_modes"
proof -
  have r: "reachable (gst_realsense_src_set_property
       (gst_realsense_src_set_property (snd (gst_realsense_src_init env_ok)) (PROP_COLOR_FPS 15))
       (PROP_DEPTH_WIDTH 999))"
    by (intro reachable.set_property reachable.init) simp_all
  have e: "color_mode (gst_realsense_src_set_property
       (gst_realsense_src_set_property (snd (gst_realsense_src_init env_ok)) (PROP_COLOR_FPS 15))
       (PROP_DEPTH_WIDTH 999)) = (1280, 720, 15)
   \<and> depth_mode (gst_realsense_src_set_property
       (gst_realsense_src_set_property (snd (gst_realsense_src_init env_ok)) (PROP_COLOR_FPS 15))
       (PROP_DEPTH_WIDTH 999)) = (640, 480, 30)"
    by (simp add: init_state gst_realsense_src_set_property_def validate_color_mode_def
          validate_depth_mode_def color_mode_def depth_mode_def emit_def
          valid_color_modes_def valid_depth_modes_def)
  show ?thesis
    using C9_property_interface_keeps_modes_valid [OF r, of env_ok] e by simp
qed

text \<open>C10, at a failing input. Before any start \<^verbatim>\<open>get_caps\<close> answers the pad template
  caps, and in a running session a copy of the negotiated caps. After a stop that
  follows a successful start the handle is still non-null while the caps are null:
  \<^verbatim>\<open>get_caps\<close> takes the copy branch on the null caps and returns a null pointer.\<close>

theorem C10_get_caps_after_stop_is_null:
  "gst_realsense_src_get_caps new_src None = Some Pad_template_caps
   \<and> gst_realsense_src_get_caps started_src None = caps started_src
   \<and> rs_pipeline (snd (gst_realsense_src_stop env_ok started_src)) = Some \<lparr>running = False\<rparr>
   \<and> caps (snd (gst_realsense_src_stop env_ok started_src)) = None
   \<and> gst_realsense_src_get_caps (snd (gst_realsense_src_stop env_ok started_src)) None = None"
  by (simp add: new_src_eq started_src_eq gst_realsense_src_stop_def gst_realsense_src_reset_def
        rs2_pipeline_stop_def flow_defs example_defs gst_realsense_src_get_caps_def
        gst_caps_copy_def)

end
